theory Spec2Isabelle
  imports Main
begin

section \<open>JavaScript values\<close>

text \<open>
  The values that flow through \<^verbatim>\<open>src/api.js\<close>: configuration values read from the
  credential store, parsed JSON bodies of HTTP responses, and the arguments of the
  exported functions.  An object is the list of its own properties in enumeration
  order (keys distinct).  A JavaScript number is a double: the numbers here are the
  integer-valued doubles (\<open>JNum n\<close>, \<open>n\<close> an integer that a double holds), the
  two infinities (\<open>JInf True\<close> the positive one) and \<open>NaN\<close>, and arithmetic rounds
  to the nearest double; fractions and the sign of zero are outside this embedding.
  A string is a list of bytes (UTF-8).
\<close>

datatype jsval =
    JUndefined
  | JNull
  | JBool bool
  | JNum int
  | JInf bool
  | JNaN
  | JStr string
  | JArr "jsval list"
  | JObj "(string \<times> jsval) list"

text \<open>Truthiness, as \<^verbatim>\<open>&&\<close>, \<^verbatim>\<open>||\<close> and \<^verbatim>\<open>if\<close> test it.\<close>

fun truthy :: "jsval \<Rightarrow> bool" where
  "truthy JUndefined = False"
| "truthy JNull = False"
| "truthy (JBool b) = b"
| "truthy (JNum n) = (n \<noteq> 0)"
| "truthy (JInf s) = True"
| "truthy JNaN = False"
| "truthy (JStr s) = (s \<noteq> [])"
| "truthy (JArr xs) = True"
| "truthy (JObj kvs) = True"

text \<open>\<^verbatim>\<open>a || b\<close> and \<^verbatim>\<open>a && b\<close> on values.\<close>

definition js_or :: "jsval \<Rightarrow> jsval \<Rightarrow> jsval" where
  "js_or a b = (if truthy a then a else b)"

definition js_and :: "jsval \<Rightarrow> jsval \<Rightarrow> jsval" where
  "js_and a b = (if truthy a then b else a)"

fun nullish :: "jsval \<Rightarrow> bool" where
  "nullish JUndefined = True"
| "nullish JNull = True"
| "nullish v = False"

text \<open>
  Reading a property \<^verbatim>\<open>v.k\<close> of a value that is neither \<^verbatim>\<open>null\<close> nor
  \<^verbatim>\<open>undefined\<close>.  The keys the program reads (\<^verbatim>\<open>message\<close>, \<^verbatim>\<open>errors\<close>,
  \<^verbatim>\<open>_embedded\<close>, \<^verbatim>\<open>items\<close>, \<^verbatim>\<open>access_token\<close>, \<^verbatim>\<open>expires_in\<close>) are no
  properties of a string, number, boolean or array, so only an object can hold them.
\<close>

fun prop_of :: "jsval \<Rightarrow> string \<Rightarrow> jsval" where
  "prop_of (JObj kvs) k = (case map_of kvs k of Some v \<Rightarrow> v | None \<Rightarrow> JUndefined)"
| "prop_of v k = JUndefined"

text \<open>Optional chaining \<^verbatim>\<open>v?.k\<close>: \<^verbatim>\<open>undefined\<close> on \<^verbatim>\<open>null\<close> and \<^verbatim>\<open>undefined\<close>.\<close>

definition opt_prop :: "jsval \<Rightarrow> string \<Rightarrow> jsval" where
  "opt_prop v k = (if nullish v then JUndefined else prop_of v k)"

subsection \<open>Doubles\<close>

text \<open>
  The double nearest to an integer, ties to the even significand: below \<open>2^53\<close>
  the integer itself, above it the integer rounded to 53 significant bits.
  A result of \<open>2^1024\<close> or more is an infinity.
\<close>

fun bit_length :: "nat \<Rightarrow> nat" where
  "bit_length n = (if n = 0 then 0 else Suc (bit_length (n div 2)))"

declare bit_length.simps [simp del]

definition round_nat :: "nat \<Rightarrow> nat" where
  "round_nat a =
     (if a < 2 ^ 53 then a
      else
        let e = bit_length a - 53;
            q = a div 2 ^ e;
            r = a mod 2 ^ e;
            h = 2 ^ (e - 1)
        in (if h < r \<or> (r = h \<and> odd q) then q + 1 else q) * 2 ^ e)"

definition round_int :: "int \<Rightarrow> int" where
  "round_int x = (if x < 0 then - int (round_nat (nat (- x))) else int (round_nat (nat x)))"

definition to_double :: "int \<Rightarrow> jsval" where
  "to_double x = (if 2 ^ 1024 \<le> \<bar>round_int x\<bar> then JInf (0 < x) else JNum (round_int x))"

subsection \<open>Conversion to a string\<close>

definition digit_char :: "nat \<Rightarrow> char" where
  "digit_char d = ''0123456789abcdef'' ! d"

fun show_nat :: "nat \<Rightarrow> string" where
  "show_nat n =
     (if n < 10 then [digit_char n] else show_nat (n div 10) @ [digit_char (n mod 10)])"

declare show_nat.simps [simp del]

text \<open>
  \<open>Number::toString\<close> on an integer-valued double: the digits are those of the
  decimal with the fewest significant digits that still denotes the double
  (the nearer one, then the even one, where two do), written out in full up to 21
  digits and with an exponent beyond.  Below \<open>2^53\<close> these are all the digits of
  the integer.  \<open>nearest a p\<close> is the multiple of \<open>p\<close> next to \<open>a\<close> that denotes
  the same double, if there is one.
\<close>

definition nearest :: "nat \<Rightarrow> nat \<Rightarrow> nat list" where
  "nearest a p =
     (let lo = (a div p) * p;
          hi = lo + p;
          vl = (round_nat lo = round_nat a);
          vh = (round_nat hi = round_nat a)
      in if vl \<and> vh
         then (if a - lo < hi - a then [lo]
               else if hi - a < a - lo then [hi]
               else if even (a div p) then [lo] else [hi])
         else if vl then [lo]
         else if vh then [hi]
         else [])"

definition shortest :: "nat \<Rightarrow> nat" where
  "shortest a =
     (let nd = length (show_nat a) in
      case concat (map (\<lambda>k. nearest a (10 ^ (nd - k))) [1..<18]) of
        v # vs \<Rightarrow> v
      | [] \<Rightarrow> a)"

definition show_abs :: "nat \<Rightarrow> string" where
  "show_abs a =
     (if a < 2 ^ 53 then show_nat a
      else
        let ds = show_nat (shortest a) in
        if length ds \<le> 21 then ds
        else
          (case rev (dropWhile (\<lambda>c. c = CHR ''0'') (rev ds)) of
             d # rest \<Rightarrow>
               d # (if rest = [] then [] else CHR ''.'' # rest)
               @ ''e+'' @ show_nat (length ds - 1)
           | [] \<Rightarrow> ds))"

definition show_int :: "int \<Rightarrow> string" where
  "show_int i = (if i < 0 then CHR ''-'' # show_abs (nat (- i)) else show_abs (nat i))"

fun join :: "string \<Rightarrow> string list \<Rightarrow> string" where
  "join sep [] = []"
| "join sep [x] = x"
| "join sep (x # y # ys) = x @ sep @ join sep (y # ys)"

text \<open>
  \<^verbatim>\<open>String(v)\<close>, which a template literal \<^verbatim>\<open>`${v}`\<close> applies.  An array joins its
  elements with commas, \<^verbatim>\<open>null\<close> and \<^verbatim>\<open>undefined\<close> elements as the empty string.
\<close>

fun to_string :: "jsval \<Rightarrow> string" where
  "to_string JUndefined = ''undefined''"
| "to_string JNull = ''null''"
| "to_string (JBool b) = (if b then ''true'' else ''false'')"
| "to_string (JNum n) = show_int n"
| "to_string (JInf s) = (if s then ''Infinity'' else ''-Infinity'')"
| "to_string JNaN = ''NaN''"
| "to_string (JStr s) = s"
| "to_string (JArr xs) = join '','' (map (\<lambda>v. if nullish v then [] else to_string v) xs)"
| "to_string (JObj kvs) = ''[object Object]''"

subsection \<open>JSON.stringify\<close>

text \<open>
  A string in JSON: in double quotes, with the quote, the backslash and the control
  characters below U+0020 escaped.
\<close>

definition json_escape :: "char \<Rightarrow> string" where
  "json_escape c =
     (if c = CHR 0x22 then [CHR 0x5C, CHR 0x22]
      else if c = CHR 0x5C then [CHR 0x5C, CHR 0x5C]
      else if c = CHR 0x08 then [CHR 0x5C, CHR ''b'']
      else if c = CHR 0x0C then [CHR 0x5C, CHR ''f'']
      else if c = CHR 0x0A then [CHR 0x5C, CHR ''n'']
      else if c = CHR 0x0D then [CHR 0x5C, CHR ''r'']
      else if c = CHR 0x09 then [CHR 0x5C, CHR ''t'']
      else if (of_char c :: nat) < 32
        then [CHR 0x5C, CHR ''u'', CHR ''0'', CHR ''0'',
              digit_char (of_char c div 16), digit_char (of_char c mod 16)]
      else [c])"

definition json_quote :: "string \<Rightarrow> string" where
  "json_quote s = CHR 0x22 # concat (map json_escape s) @ [CHR 0x22]"

text \<open>
  The serialisation of a value inside a document: \<^verbatim>\<open>undefined\<close> is \<^verbatim>\<open>null\<close> in an
  array and its property is left out of an object; \<open>NaN\<close> and the infinities are
  \<^verbatim>\<open>null\<close>.
\<close>

fun json_text :: "jsval \<Rightarrow> string" where
  "json_text JUndefined = ''null''"
| "json_text JNull = ''null''"
| "json_text (JBool b) = (if b then ''true'' else ''false'')"
| "json_text (JNum n) = show_int n"
| "json_text (JInf s) = ''null''"
| "json_text JNaN = ''null''"
| "json_text (JStr s) = json_quote s"
| "json_text (JArr xs) = ''['' @ join '','' (map json_text xs) @ '']''"
| "json_text (JObj kvs) =
     ''{'' @ join '','' (map (\<lambda>(k, v). json_quote k @ '':'' @ json_text v)
                        (filter (\<lambda>(k, v). v \<noteq> JUndefined) kvs)) @ ''}''"

text \<open>\<^verbatim>\<open>JSON.stringify(v)\<close>: a string, and \<^verbatim>\<open>undefined\<close> for \<^verbatim>\<open>undefined\<close>.\<close>

definition JSON_stringify :: "jsval \<Rightarrow> jsval" where
  "JSON_stringify v = (if v = JUndefined then JUndefined else JStr (json_text v))"

subsection \<open>Strings\<close>

text \<open>
  \<^verbatim>\<open>s.replace(pat, rep)\<close> with a string pattern: the first occurrence of
  \<open>pat\<close> in \<open>s\<close> is replaced, wherever it stands.
\<close>

fun starts_with :: "string \<Rightarrow> string \<Rightarrow> bool" where
  "starts_with [] s = True"
| "starts_with (p # ps) [] = False"
| "starts_with (p # ps) (c # cs) = (p = c \<and> starts_with ps cs)"

fun replace_first :: "string \<Rightarrow> string \<Rightarrow> string \<Rightarrow> string" where
  "replace_first pat rep [] = (if pat = [] then rep else [])"
| "replace_first pat rep (c # cs) =
     (if starts_with pat (c # cs) then rep @ drop (length pat) (c # cs)
      else c # replace_first pat rep cs)"


subsection \<open>Numbers\<close>

text \<open>
  \<open>ToNumber\<close>.  The number a string denotes is a primitive of the language that
  this program does not contain; it is the parameter \<open>s2n\<close>.  An array or an
  object is converted through its string.
\<close>

fun to_number :: "(string \<Rightarrow> jsval) \<Rightarrow> jsval \<Rightarrow> jsval" where
  "to_number s2n JUndefined = JNaN"
| "to_number s2n JNull = JNum 0"
| "to_number s2n (JBool b) = JNum (if b then 1 else 0)"
| "to_number s2n (JNum n) = JNum n"
| "to_number s2n (JInf s) = JInf s"
| "to_number s2n JNaN = JNaN"
| "to_number s2n (JStr s) = s2n s"
| "to_number s2n (JArr xs) = s2n (to_string (JArr xs))"
| "to_number s2n (JObj kvs) = s2n (to_string (JObj kvs))"

text \<open>
  The product, sum and difference of two numbers, each the exact result rounded to
  the nearest double, with the infinities and \<open>NaN\<close> as IEEE 754 has them.
\<close>

fun num_times :: "jsval \<Rightarrow> jsval \<Rightarrow> jsval" where
  "num_times (JNum x) (JNum y) = to_double (x * y)"
| "num_times (JInf s) (JNum y) = (if y = 0 then JNaN else JInf (s = (0 < y)))"
| "num_times (JNum x) (JInf t) = (if x = 0 then JNaN else JInf ((0 < x) = t))"
| "num_times (JInf s) (JInf t) = JInf (s = t)"
| "num_times a b = JNaN"

fun num_plus :: "jsval \<Rightarrow> jsval \<Rightarrow> jsval" where
  "num_plus (JNum x) (JNum y) = to_double (x + y)"
| "num_plus (JInf s) (JNum y) = JInf s"
| "num_plus (JNum x) (JInf t) = JInf t"
| "num_plus (JInf s) (JInf t) = (if s = t then JInf s else JNaN)"
| "num_plus a b = JNaN"

fun num_minus :: "jsval \<Rightarrow> jsval \<Rightarrow> jsval" where
  "num_minus (JNum x) (JNum y) = to_double (x - y)"
| "num_minus (JInf s) (JNum y) = JInf s"
| "num_minus (JNum x) (JInf t) = JInf (\<not> t)"
| "num_minus (JInf s) (JInf t) = (if s = t then JNaN else JInf s)"
| "num_minus a b = JNaN"

text \<open>\<^verbatim>\<open>a * b\<close> on values, and \<^verbatim>\<open>a < b\<close> where \<open>a\<close> is a finite number.\<close>

definition js_times :: "(string \<Rightarrow> jsval) \<Rightarrow> jsval \<Rightarrow> jsval \<Rightarrow> jsval" where
  "js_times s2n a b = num_times (to_number s2n a) (to_number s2n b)"

definition num_less :: "(string \<Rightarrow> jsval) \<Rightarrow> int \<Rightarrow> jsval \<Rightarrow> bool" where
  "num_less s2n x b =
     (case to_number s2n b of JNum y \<Rightarrow> x < y | JInf s \<Rightarrow> s | _ \<Rightarrow> False)"

section \<open>The world around the program\<close>

subsection \<open>HTTP\<close>

text \<open>
  A request as the program hands it to axios: the verb, the instance's
  \<^verbatim>\<open>baseURL\<close> (\<^verbatim>\<open>undefined\<close> for a call on axios itself), the URL, the headers, the
  query parameters and the body.
\<close>

record http_request =
  verb :: string
  baseURL :: jsval
  url :: string
  headers :: "(string \<times> string) list"
  params :: "(string \<times> jsval) list"
  body :: jsval

datatype response = Response (status: int) (data: jsval)

text \<open>
  What axios rejects a call with: \<^verbatim>\<open>error.response\<close> when the server answered
  with a status outside 2xx, otherwise \<^verbatim>\<open>error.request\<close> when the request was sent
  and no answer came, otherwise neither (the request could not be set up).
\<close>

datatype axios_error = AxiosError (response: "response option") (request: bool)

text \<open>
  What a function throws: \<^verbatim>\<open>new Error(message)\<close>, the \<^verbatim>\<open>TypeError\<close> of the
  language (a property read on \<^verbatim>\<open>null\<close>, a call of something that is no function),
  or the error of an axios call.
\<close>

datatype thrown = Error string | TypeError | Axios axios_error

type_synonym 'a result = "thrown + 'a"

subsection \<open>Clock, remote party, credential store\<close>

text \<open>
  \<^verbatim>\<open>getAccessToken\<close> reads \<^verbatim>\<open>Date.now()\<close> (milliseconds elapsed since the epoch)
  when it checks the cached token, and again after the token endpoint has answered.
  The remote party is a function from the request to what axios makes of the answer.
\<close>

record env =
  now_check :: nat
  now_store :: nat
  remote :: "http_request \<Rightarrow> axios_error + response"
  s2n :: "string \<Rightarrow> jsval"

text \<open>
  The state: the credential store and the requests sent so far, oldest first.
  \<^verbatim>\<open>src/config.js\<close> wraps a \<^verbatim>\<open>Conf\<close> instance, which keeps the store in a JSON
  file: \<^verbatim>\<open>get(key)\<close> gives the value read from the file or \<^verbatim>\<open>undefined\<close>;
  \<^verbatim>\<open>set(key, value)\<close> throws a \<^verbatim>\<open>TypeError\<close> when the value is \<^verbatim>\<open>undefined\<close> and
  otherwise writes the value to the file, so that what is read back is the value
  after serialisation and parsing.
\<close>

record world =
  store :: "string \<rightharpoonup> jsval"
  sent :: "http_request list"

definition getConfig :: "world \<Rightarrow> string \<Rightarrow> jsval" where
  "getConfig w key = (case store w key of Some v \<Rightarrow> v | None \<Rightarrow> JUndefined)"

text \<open>
  A value after \<^verbatim>\<open>JSON.parse(JSON.stringify(v))\<close>: \<open>NaN\<close> and the infinities come
  back as \<^verbatim>\<open>null\<close>, so does \<^verbatim>\<open>undefined\<close> in an array, and a property that is
  \<^verbatim>\<open>undefined\<close> is gone.
\<close>

fun persisted :: "jsval \<Rightarrow> jsval" where
  "persisted JUndefined = JNull"
| "persisted JNull = JNull"
| "persisted (JBool b) = JBool b"
| "persisted (JNum n) = JNum n"
| "persisted (JInf s) = JNull"
| "persisted JNaN = JNull"
| "persisted (JStr s) = JStr s"
| "persisted (JArr xs) = JArr (map persisted xs)"
| "persisted (JObj kvs) =
     JObj (map (\<lambda>(k, v). (k, persisted v)) (filter (\<lambda>(k, v). v \<noteq> JUndefined) kvs))"


definition setConfig :: "string \<Rightarrow> jsval \<Rightarrow> world \<Rightarrow> thrown + world" where
  "setConfig key v w =
     (if v = JUndefined then Inl TypeError
      else Inr (w\<lparr>store := (store w)(key \<mapsto> persisted v)\<rparr>))"

text \<open>An axios call: the request goes out, the remote party's answer comes back.\<close>

definition send :: "env \<Rightarrow> http_request \<Rightarrow> world \<Rightarrow> (axios_error + response) \<times> world" where
  "send e req w = (remote e req, w\<lparr>sent := sent w @ [req]\<rparr>)"

section \<open>src/api.js\<close>

definition DEFAULT_BASE_URL :: string where
  "DEFAULT_BASE_URL = ''https://demo.akeneo.com/api/rest/v1''"

subsection \<open>getAccessToken\<close>

definition token_request :: "world \<Rightarrow> string \<Rightarrow> http_request" where
  "token_request w authBaseUrl =
     \<lparr>verb = ''POST'',
      baseURL = JUndefined,
      url = authBaseUrl @ ''/api/oauth/v1/token'',
      headers = [(''Content-Type'', ''application/json'')],
      params = [],
      body = JObj [(''grant_type'', JStr ''password''),
                   (''client_id'', getConfig w ''clientId''),
                   (''client_secret'', getConfig w ''clientSecret''),
                   (''username'', getConfig w ''username''),
                   (''password'', getConfig w ''password'')]\<rparr>"

definition cannot_connect :: "string \<Rightarrow> thrown" where
  "cannot_connect authBaseUrl =
     Error (''Cannot connect to Akeneo at '' @ authBaseUrl @ ''. Check your base URL.'')"

text \<open>
  The \<^verbatim>\<open>try\<close> block after the token endpoint has answered with 2xx.  Destructuring
  \<^verbatim>\<open>response.data\<close> throws on \<^verbatim>\<open>null\<close> and \<^verbatim>\<open>undefined\<close>, and each
  \<^verbatim>\<open>setConfig\<close> may throw; the \<^verbatim>\<open>catch\<close> clause turns whatever was thrown into the
  error of an unreachable endpoint, since it carries no \<^verbatim>\<open>response\<close>.
\<close>

definition store_token :: "env \<Rightarrow> string \<Rightarrow> response \<Rightarrow> world \<Rightarrow> jsval result \<times> world" where
  "store_token e authBaseUrl r w =
     (if nullish (data r) then (Inl (cannot_connect authBaseUrl), w)
      else
        let access_token = prop_of (data r) ''access_token'';
            expires_in = prop_of (data r) ''expires_in''
        in case setConfig ''accessToken'' access_token w of
             Inl err \<Rightarrow> (Inl (cannot_connect authBaseUrl), w)
           | Inr w1 \<Rightarrow>
               (case setConfig ''tokenExpiry''
                       (num_minus (num_plus (JNum (int (now_store e)))
                                            (js_times (s2n e) expires_in (JNum 1000)))
                                  (JNum 60000)) w1 of
                  Inl err \<Rightarrow> (Inl (cannot_connect authBaseUrl), w1)
                | Inr w2 \<Rightarrow> (Inr access_token, w2)))"

text \<open>The \<^verbatim>\<open>catch\<close> clause on a rejected call.\<close>

definition token_failure :: "string \<Rightarrow> axios_error \<Rightarrow> thrown" where
  "token_failure authBaseUrl err =
     (case response err of
        Some r \<Rightarrow>
          Error (''Authentication failed: '' @
                 to_string (js_or (opt_prop (data r) ''message'') (JSON_stringify (data r))))
      | None \<Rightarrow> cannot_connect authBaseUrl)"

text \<open>
  The test of line 16:
  \<^verbatim>\<open>cachedToken && tokenExpiry && Date.now() < tokenExpiry\<close>.
\<close>

definition cache_valid :: "env \<Rightarrow> world \<Rightarrow> bool" where
  "cache_valid e w =
     (let cachedToken = getConfig w ''accessToken'';
          tokenExpiry = getConfig w ''tokenExpiry''
      in truthy cachedToken \<and> truthy tokenExpiry
         \<and> num_less (s2n e) (int (now_check e)) tokenExpiry)"

definition getAccessToken :: "env \<Rightarrow> world \<Rightarrow> jsval result \<times> world" where
  "getAccessToken e w =
     (let baseUrl = js_or (getConfig w ''baseUrl'') (JStr DEFAULT_BASE_URL);
          cachedToken = getConfig w ''accessToken''
      in if cache_valid e w
         then (Inr cachedToken, w)
         else
           (case baseUrl of
              JStr b \<Rightarrow>
                let authBaseUrl = replace_first ''/api/rest/v1'' [] b in
                (case send e (token_request w authBaseUrl) w of
                   (Inr r, w1) \<Rightarrow> store_token e authBaseUrl r w1
                 | (Inl err, w1) \<Rightarrow> (Inl (token_failure authBaseUrl err), w1))
            | _ \<Rightarrow> (Inl TypeError, w)))"

subsection \<open>getClient\<close>

record client =
  client_baseURL :: jsval
  client_headers :: "(string \<times> string) list"

definition getClient :: "env \<Rightarrow> world \<Rightarrow> client result \<times> world" where
  "getClient e w =
     (case getAccessToken e w of
        (Inl err, w1) \<Rightarrow> (Inl err, w1)
      | (Inr token, w1) \<Rightarrow>
          (Inr \<lparr>client_baseURL = js_or (getConfig w1 ''baseUrl'') (JStr DEFAULT_BASE_URL),
                client_headers = [(''Authorization'', ''Bearer '' @ to_string token),
                                  (''Content-Type'', ''application/json''),
                                  (''Accept'', ''application/json'')]\<rparr>, w1))"

definition client_get :: "client \<Rightarrow> string \<Rightarrow> (string \<times> jsval) list \<Rightarrow> http_request" where
  "client_get c path ps =
     \<lparr>verb = ''GET'', baseURL = client_baseURL c, url = path,
      headers = client_headers c, params = ps, body = JUndefined\<rparr>"

definition client_post :: "client \<Rightarrow> string \<Rightarrow> jsval \<Rightarrow> http_request" where
  "client_post c path b =
     \<lparr>verb = ''POST'', baseURL = client_baseURL c, url = path,
      headers = client_headers c, params = [], body = b\<rparr>"

subsection \<open>handleApiError\<close>

text \<open>The function always throws; the value is what it throws.\<close>

definition handleApiError :: "world \<Rightarrow> thrown \<Rightarrow> thrown" where
  "handleApiError w error =
     (case error of
        Axios (AxiosError (Some r) rq) \<Rightarrow>
          if status r = 401 then
            Error ''Authentication failed. Run: akeneo config set --client-id ... --client-secret ... --username ... --password ...''
          else if status r = 403 then
            Error ''Access forbidden. Check your Akeneo user permissions.''
          else if status r = 404 then
            Error ''Resource not found in Akeneo.''
          else if status r = 422 then
            Error (''Validation error: '' @
                   to_string (JSON_stringify (js_or (opt_prop (data r) ''errors'') (data r))))
          else if status r = 429 then
            Error ''Rate limit exceeded. Please wait before retrying.''
          else
            Error (''API Error ('' @ to_string (JNum (status r)) @ ''): '' @
                   to_string (js_or (opt_prop (data r) ''message'') (JSON_stringify (data r))))
      | Axios (AxiosError None True) \<Rightarrow>
          Error (''No response from Akeneo at '' @
                 to_string (js_or (getConfig w ''baseUrl'') (JStr DEFAULT_BASE_URL)) @
                 ''. Check your instance URL.'')
      | _ \<Rightarrow> error)"

subsection \<open>parseAkeneoList\<close>

fun is_array :: "jsval \<Rightarrow> bool" where
  "is_array (JArr xs) = True"
| "is_array v = False"

definition parseAkeneoList :: "response \<Rightarrow> jsval result" where
  "parseAkeneoList r =
     (let d = data r in
      if nullish d then Inl TypeError
      else if truthy (js_and (prop_of d ''_embedded'') (prop_of (prop_of d ''_embedded'') ''items''))
        then Inr (prop_of (prop_of d ''_embedded'') ''items'')
      else Inr (if is_array d then d else JArr []))"


subsection \<open>The exported operations\<close>

text \<open>
  A parameter default (\<^verbatim>\<open>limit = 20\<close>) applies when the argument is \<^verbatim>\<open>undefined\<close>;
  a spread \<^verbatim>\<open>...(c && { k })\<close> adds the property when \<open>c\<close> is truthy and nothing
  otherwise.  Each function runs \<^verbatim>\<open>getClient\<close>, its request and the reading of the
  answer inside one \<^verbatim>\<open>try\<close>, and hands whatever was thrown to \<^verbatim>\<open>handleApiError\<close>.
\<close>

definition default_to :: "jsval \<Rightarrow> jsval \<Rightarrow> jsval" where
  "default_to d v = (if v = JUndefined then d else v)"

definition spread_if :: "jsval \<Rightarrow> (string \<times> jsval) list \<Rightarrow> (string \<times> jsval) list" where
  "spread_if c kvs = (if truthy c then kvs else [])"

definition listProducts :: "env \<Rightarrow> jsval \<Rightarrow> jsval \<Rightarrow> jsval \<Rightarrow> world \<Rightarrow> jsval result \<times> world" where
  "listProducts e limit page search w =
     (case getClient e w of
        (Inl err, w1) \<Rightarrow> (Inl (handleApiError w1 err), w1)
      | (Inr c, w1) \<Rightarrow>
          let ps = [(''limit'', default_to (JNum 20) limit), (''page'', default_to (JNum 1) page)]
                   @ (if truthy search then [(''search'', search)] else []) in
          (case send e (client_get c ''/products'' ps) w1 of
             (Inl err, w2) \<Rightarrow> (Inl (handleApiError w2 (Axios err)), w2)
           | (Inr r, w2) \<Rightarrow>
               (case parseAkeneoList r of
                  Inl err \<Rightarrow> (Inl (handleApiError w2 err), w2)
                | Inr items \<Rightarrow> (Inr items, w2))))"

definition getProduct :: "env \<Rightarrow> jsval \<Rightarrow> world \<Rightarrow> jsval result \<times> world" where
  "getProduct e code w =
     (case getClient e w of
        (Inl err, w1) \<Rightarrow> (Inl (handleApiError w1 err), w1)
      | (Inr c, w1) \<Rightarrow>
          (case send e (client_get c (''/products/'' @ to_string code) []) w1 of
             (Inl err, w2) \<Rightarrow> (Inl (handleApiError w2 (Axios err)), w2)
           | (Inr r, w2) \<Rightarrow> (Inr (data r), w2)))"

definition createProduct ::
  "env \<Rightarrow> jsval \<Rightarrow> jsval \<Rightarrow> jsval \<Rightarrow> jsval \<Rightarrow> world \<Rightarrow> jsval result \<times> world" where
  "createProduct e identifier family categories vals w =
     (case getClient e w of
        (Inl err, w1) \<Rightarrow> (Inl (handleApiError w1 err), w1)
      | (Inr c, w1) \<Rightarrow>
          let b = JObj ([(''identifier'', identifier)]
                        @ spread_if family [(''family'', family)]
                        @ spread_if categories [(''categories'', categories)]
                        @ spread_if vals [(''values'', vals)]) in
          (case send e (client_post c ''/products'' b) w1 of
             (Inl err, w2) \<Rightarrow> (Inl (handleApiError w2 (Axios err)), w2)
           | (Inr r, w2) \<Rightarrow>
               (Inr (JObj [(''identifier'', identifier), (''family'', family),
                           (''categories'', categories)]), w2)))"

definition listCategories :: "env \<Rightarrow> jsval \<Rightarrow> jsval \<Rightarrow> world \<Rightarrow> jsval result \<times> world" where
  "listCategories e limit page w =
     (case getClient e w of
        (Inl err, w1) \<Rightarrow> (Inl (handleApiError w1 err), w1)
      | (Inr c, w1) \<Rightarrow>
          let ps = [(''limit'', default_to (JNum 20) limit), (''page'', default_to (JNum 1) page)] in
          (case send e (client_get c ''/categories'' ps) w1 of
             (Inl err, w2) \<Rightarrow> (Inl (handleApiError w2 (Axios err)), w2)
           | (Inr r, w2) \<Rightarrow>
               (case parseAkeneoList r of
                  Inl err \<Rightarrow> (Inl (handleApiError w2 err), w2)
                | Inr items \<Rightarrow> (Inr items, w2))))"

definition getCategory :: "env \<Rightarrow> jsval \<Rightarrow> world \<Rightarrow> jsval result \<times> world" where
  "getCategory e code w =
     (case getClient e w of
        (Inl err, w1) \<Rightarrow> (Inl (handleApiError w1 err), w1)
      | (Inr c, w1) \<Rightarrow>
          (case send e (client_get c (''/categories/'' @ to_string code) []) w1 of
             (Inl err, w2) \<Rightarrow> (Inl (handleApiError w2 (Axios err)), w2)
           | (Inr r, w2) \<Rightarrow> (Inr (data r), w2)))"

definition createCategory ::
  "env \<Rightarrow> jsval \<Rightarrow> jsval \<Rightarrow> jsval \<Rightarrow> world \<Rightarrow> jsval result \<times> world" where
  "createCategory e code parent labels w =
     (case getClient e w of
        (Inl err, w1) \<Rightarrow> (Inl (handleApiError w1 err), w1)
      | (Inr c, w1) \<Rightarrow>
          let b = JObj ([(''code'', code)]
                        @ spread_if parent [(''parent'', parent)]
                        @ spread_if labels [(''labels'', labels)]) in
          (case send e (client_post c ''/categories'' b) w1 of
             (Inl err, w2) \<Rightarrow> (Inl (handleApiError w2 (Axios err)), w2)
           | (Inr r, w2) \<Rightarrow>
               (Inr (JObj [(''code'', code), (''parent'', parent), (''labels'', labels)]), w2)))"

definition listAttributes :: "env \<Rightarrow> jsval \<Rightarrow> jsval \<Rightarrow> jsval \<Rightarrow> world \<Rightarrow> jsval result \<times> world" where
  "listAttributes e limit page type w =
     (case getClient e w of
        (Inl err, w1) \<Rightarrow> (Inl (handleApiError w1 err), w1)
      | (Inr c, w1) \<Rightarrow>
          let ps = [(''limit'', default_to (JNum 20) limit), (''page'', default_to (JNum 1) page)]
                   @ (if truthy type
                      then [(''search'',
                             JSON_stringify
                               (JObj [(''type'',
                                       JArr [JObj [(''operator'', JStr ''=''), (''value'', type)]])]))]
                      else []) in
          (case send e (client_get c ''/attributes'' ps) w1 of
             (Inl err, w2) \<Rightarrow> (Inl (handleApiError w2 (Axios err)), w2)
           | (Inr r, w2) \<Rightarrow>
               (case parseAkeneoList r of
                  Inl err \<Rightarrow> (Inl (handleApiError w2 err), w2)
                | Inr items \<Rightarrow> (Inr items, w2))))"

definition getAttribute :: "env \<Rightarrow> jsval \<Rightarrow> world \<Rightarrow> jsval result \<times> world" where
  "getAttribute e code w =
     (case getClient e w of
        (Inl err, w1) \<Rightarrow> (Inl (handleApiError w1 err), w1)
      | (Inr c, w1) \<Rightarrow>
          (case send e (client_get c (''/attributes/'' @ to_string code) []) w1 of
             (Inl err, w2) \<Rightarrow> (Inl (handleApiError w2 (Axios err)), w2)
           | (Inr r, w2) \<Rightarrow> (Inr (data r), w2)))"

definition createAttribute ::
  "env \<Rightarrow> jsval \<Rightarrow> jsval \<Rightarrow> jsval \<Rightarrow> jsval \<Rightarrow> jsval \<Rightarrow> jsval \<Rightarrow> world \<Rightarrow> jsval result \<times> world" where
  "createAttribute e code type grp labels scopable localizable w =
     (case getClient e w of
        (Inl err, w1) \<Rightarrow> (Inl (handleApiError w1 err), w1)
      | (Inr c, w1) \<Rightarrow>
          let b = JObj ([(''code'', code),
                         (''type'', type),
                         (''group'', js_or grp (JStr ''other'')),
                         (''scopable'', default_to (JBool False) scopable),
                         (''localizable'', default_to (JBool False) localizable)]
                        @ spread_if labels [(''labels'', labels)]) in
          (case send e (client_post c ''/attributes'' b) w1 of
             (Inl err, w2) \<Rightarrow> (Inl (handleApiError w2 (Axios err)), w2)
           | (Inr r, w2) \<Rightarrow>
               (Inr (JObj [(''code'', code), (''type'', type),
                           (''group'', js_or grp (JStr ''other''))]), w2)))"

text \<open>A call of one of the nine exported functions, with its arguments.\<close>

datatype operation =
    ListProducts jsval jsval jsval
  | GetProduct jsval
  | CreateProduct jsval jsval jsval jsval
  | ListCategories jsval jsval
  | GetCategory jsval
  | CreateCategory jsval jsval jsval
  | ListAttributes jsval jsval jsval
  | GetAttribute jsval
  | CreateAttribute jsval jsval jsval jsval jsval jsval

fun run :: "env \<Rightarrow> operation \<Rightarrow> world \<Rightarrow> jsval result \<times> world" where
  "run e (ListProducts limit page search) w = listProducts e limit page search w"
| "run e (GetProduct code) w = getProduct e code w"
| "run e (CreateProduct identifier family categories vals) w =
     createProduct e identifier family categories vals w"
| "run e (ListCategories limit page) w = listCategories e limit page w"
| "run e (GetCategory code) w = getCategory e code w"
| "run e (CreateCategory code parent labels) w = createCategory e code parent labels w"
| "run e (ListAttributes limit page type) w = listAttributes e limit page type w"
| "run e (GetAttribute code) w = getAttribute e code w"
| "run e (CreateAttribute code type grp labels scopable localizable) w =
     createAttribute e code type grp labels scopable localizable w"

text \<open>
  The request each operation builds for its client, for stating what was sent.
\<close>

fun resource_request :: "client \<Rightarrow> operation \<Rightarrow> http_request" where
  "resource_request c (ListProducts limit page search) =
     client_get c ''/products''
       ([(''limit'', default_to (JNum 20) limit), (''page'', default_to (JNum 1) page)]
        @ (if truthy search then [(''search'', search)] else []))"
| "resource_request c (GetProduct code) = client_get c (''/products/'' @ to_string code) []"
| "resource_request c (CreateProduct identifier family categories vals) =
     client_post c ''/products''
       (JObj ([(''identifier'', identifier)]
              @ spread_if family [(''family'', family)]
              @ spread_if categories [(''categories'', categories)]
              @ spread_if vals [(''values'', vals)]))"
| "resource_request c (ListCategories limit page) =
     client_get c ''/categories''
       [(''limit'', default_to (JNum 20) limit), (''page'', default_to (JNum 1) page)]"
| "resource_request c (GetCategory code) = client_get c (''/categories/'' @ to_string code) []"
| "resource_request c (CreateCategory code parent labels) =
     client_post c ''/categories''
       (JObj ([(''code'', code)]
              @ spread_if parent [(''parent'', parent)]
              @ spread_if labels [(''labels'', labels)]))"
| "resource_request c (ListAttributes limit page type) =
     client_get c ''/attributes''
       ([(''limit'', default_to (JNum 20) limit), (''page'', default_to (JNum 1) page)]
        @ (if truthy type
           then [(''search'',
                  JSON_stringify
                    (JObj [(''type'',
                            JArr [JObj [(''operator'', JStr ''=''), (''value'', type)]])]))]
           else []))"
| "resource_request c (GetAttribute code) = client_get c (''/attributes/'' @ to_string code) []"
| "resource_request c (CreateAttribute code type grp labels scopable localizable) =
     client_post c ''/attributes''
       (JObj ([(''code'', code),
               (''type'', type),
               (''group'', js_or grp (JStr ''other'')),
               (''scopable'', default_to (JBool False) scopable),
               (''localizable'', default_to (JBool False) localizable)]
              @ spread_if labels [(''labels'', labels)]))"

section \<open>Example surroundings\<close>

text \<open>
  A remote party that gives every request the same answer, a clock, and a store that
  holds a token valid until millisecond 9000.
\<close>

definition answering :: "axios_error + response \<Rightarrow> http_request \<Rightarrow> axios_error + response" where
  "answering a req = a"

definition no_number :: "string \<Rightarrow> jsval" where
  "no_number s = JNaN"

definition env_at :: "nat \<Rightarrow> (axios_error + response) \<Rightarrow> env" where
  "env_at t a = \<lparr>now_check = t, now_store = t, remote = answering a, s2n = no_number\<rparr>"

definition empty_world :: world where
  "empty_world = \<lparr>store = Map.empty, sent = []\<rparr>"

definition cached_world :: world where
  "cached_world =
     \<lparr>store = [''accessToken'' \<mapsto> JStr ''tok'', ''tokenExpiry'' \<mapsto> JNum 9000], sent = []\<rparr>"

text \<open>A store whose base URL holds the API path twice.\<close>

definition twice_world :: world where
  "twice_world =
     \<lparr>store = [''baseUrl'' \<mapsto> JStr ''https://h/api/rest/v1/x/api/rest/v1''], sent = []\<rparr>"

section \<open>The specification's vocabulary\<close>

text \<open>
  The source raises every failure as a plain \<^verbatim>\<open>Error\<close> with one of a fixed family of
  messages.  The specification names these families as error kinds (section 7 and the
  table of section 4.2); \<open>spec_kind\<close> reads the kind off the message the way the
  specification's table assigns it.  A thrown value that is none of them has no kind.
\<close>

datatype error_kind =
    AuthError
  | PermissionError
  | NotFoundError
  | ValidationError
  | RateLimitError
  | ConnectivityError
  | ApiError

definition spec_kind :: "thrown \<Rightarrow> error_kind option" where
  "spec_kind t =
     (case t of
        Error m \<Rightarrow>
          if starts_with ''Authentication failed'' m then Some AuthError
          else if starts_with ''Access forbidden.'' m then Some PermissionError
          else if starts_with ''Resource not found'' m then Some NotFoundError
          else if starts_with ''Validation error: '' m then Some ValidationError
          else if starts_with ''Rate limit exceeded.'' m then Some RateLimitError
          else if starts_with ''No response from Akeneo at '' m
                  \<or> starts_with ''Cannot connect to Akeneo at '' m then Some ConnectivityError
          else if starts_with ''API Error ('' m then Some ApiError
          else None
      | _ \<Rightarrow> None)"

text \<open>The specification's table of section 4.2: the kind of an HTTP status.\<close>

definition spec_status_kind :: "int \<Rightarrow> error_kind" where
  "spec_status_kind st =
     (if st = 401 then AuthError
      else if st = 403 then PermissionError
      else if st = 404 then NotFoundError
      else if st = 422 then ValidationError
      else if st = 429 then RateLimitError
      else ApiError)"

text \<open>
  The specification's wording for the authentication endpoint: the base URL with its
  API-path suffix stripped, a URL that does not end in the suffix being left as it is.
\<close>

definition spec_strip_suffix :: "string \<Rightarrow> string \<Rightarrow> string" where
  "spec_strip_suffix suf s =
     (if length suf \<le> length s \<and> drop (length s - length suf) s = suf
      then take (length s - length suf) s else s)"

section \<open>Facts about numbers\<close>



lemma to_double_defined [simp]: "to_double x \<noteq> JUndefined"
  by (simp add: to_double_def)

lemma num_plus_defined [simp]: "num_plus a b \<noteq> JUndefined"
  by (cases "(a, b)" rule: num_plus.cases) auto

lemma num_minus_defined [simp]: "num_minus a b \<noteq> JUndefined"
  by (cases "(a, b)" rule: num_minus.cases) auto


lemma show_int_examples:
  "show_int 404 = ''404''"
  "show_int (- 17) = ''-17''"
  by (simp_all add: show_int_def show_abs_def show_nat.simps digit_char_def)

lemma bit_length_70: "bit_length 1000000000000000000000 = 70"
  by (simp add: bit_length.simps)

lemma round_1e21: "round_nat 1000000000000000000000 = 1000000000000000000000"
  by (simp add: round_nat_def bit_length_70 Let_def)

lemma len_1e21: "length (show_nat 1000000000000000000000) = 22"
  by (simp add: show_nat.simps)

lemma nearest_1e21: "nearest 1000000000000000000000 (10 ^ 21) = [1000000000000000000000]"
  by (simp add: nearest_def Let_def round_1e21)

lemma shortest_1e21: "shortest 1000000000000000000000 = 1000000000000000000000"
proof -
  have "[1..<18] = 1 # [2..<18]" by (simp add: upt_conv_Cons)
  then show ?thesis
    using nearest_1e21 by (simp add: shortest_def len_1e21 Let_def del: upt.simps)
qed

lemma show_int_1e21: "show_int 1000000000000000000000 = ''1e+21''"
  by (simp add: show_int_def show_abs_def shortest_1e21 show_nat.simps digit_char_def Let_def)

section \<open>Facts about the token manager\<close>

lemma getAccessToken_hit:
  "cache_valid e w \<Longrightarrow> getAccessToken e w = (Inr (getConfig w ''accessToken''), w)"
  by (simp add: getAccessToken_def)

lemma getAccessToken_miss:
  assumes "\<not> cache_valid e w"
    and "js_or (getConfig w ''baseUrl'') (JStr DEFAULT_BASE_URL) = JStr b"
  shows "getAccessToken e w =
     (let authBaseUrl = replace_first ''/api/rest/v1'' [] b;
          w1 = w\<lparr>sent := sent w @ [token_request w authBaseUrl]\<rparr> in
      case remote e (token_request w authBaseUrl) of
        Inr r \<Rightarrow> store_token e authBaseUrl r w1
      | Inl err \<Rightarrow> (Inl (token_failure authBaseUrl err), w1))"
  using assms by (simp add: getAccessToken_def send_def Let_def split: sum.splits)

lemma store_token_cases:
  "store_token e a r w =
     (if nullish (data r) \<or> prop_of (data r) ''access_token'' = JUndefined
      then (Inl (cannot_connect a), w)
      else (Inr (prop_of (data r) ''access_token''),
            w\<lparr>store := (store w)
                 (''accessToken'' \<mapsto> persisted (prop_of (data r) ''access_token''),
                  ''tokenExpiry'' \<mapsto>
                     persisted
                       (num_minus (num_plus (JNum (int (now_store e)))
                                            (js_times (s2n e) (prop_of (data r) ''expires_in'')
                                               (JNum 1000)))
                                  (JNum 60000)))\<rparr>))"
  by (simp add: store_token_def setConfig_def Let_def)

lemma store_token_fail_store:
  "isl (fst (store_token e a r w)) \<Longrightarrow> store (snd (store_token e a r w)) = store w"
  by (auto simp: store_token_cases)

lemma getAccessToken_fail_store:
  "isl (fst (getAccessToken e w)) \<Longrightarrow> store (snd (getAccessToken e w)) = store w"
proof (cases "cache_valid e w")
  case True
  then show ?thesis by (simp add: getAccessToken_hit)
next
  case False
  assume f: "isl (fst (getAccessToken e w))"
  show ?thesis
  proof (cases "js_or (getConfig w ''baseUrl'') (JStr DEFAULT_BASE_URL)")
    case (JStr b)
    show ?thesis
      using f store_token_fail_store
      by (auto simp: getAccessToken_miss [OF False JStr] Let_def split: sum.splits)
  qed (use False in \<open>simp_all add: getAccessToken_def\<close>)
qed

lemma starts_with_append [simp]: "starts_with p (p @ s)"
  by (induction p) auto




section \<open>The cached token\<close>

text \<open>
  Claim C2.  In every store that holds a cached access token (a value under
  \<^verbatim>\<open>accessToken\<close> that passes the code's test of existence, \<^verbatim>\<open>cachedToken &&\<close>) and
  an expiry that the clock has not reached (\<^verbatim>\<open>Date.now() < tokenExpiry\<close>),
  \<^verbatim>\<open>getAccessToken\<close> returns the cached token and leaves the world as it was: the
  list of requests sent is unchanged, so no network request was issued, and the
  store is unchanged, so nothing was written.
\<close>

theorem cached_token_returned_untouched:
  assumes "store w ''accessToken'' = Some tok"
    and "truthy tok"
    and "store w ''tokenExpiry'' = Some (JNum ex)"
    and "int (now_check e) < ex"
  shows "getAccessToken e w = (Inr tok, w)"
proof -
  have "ex \<noteq> 0" using assms(4) by linarith
  then have "cache_valid e w"
    using assms by (simp add: cache_valid_def getConfig_def num_less_def)
  then show ?thesis
    using assms(1) by (simp add: getAccessToken_hit getConfig_def)
qed

theorem cached_token_returned_untouched_witness:
  "store cached_world ''accessToken'' = Some (JStr ''tok'')
   \<and> truthy (JStr ''tok'')
   \<and> store cached_world ''tokenExpiry'' = Some (JNum 9000)
   \<and> int (now_check (env_at 5 (Inl (AxiosError None True)))) < 9000
   \<and> getAccessToken (env_at 5 (Inl (AxiosError None True))) cached_world
       = (Inr (JStr ''tok''), cached_world)
   \<and> sent cached_world = []"
proof -
  have h: "store cached_world ''accessToken'' = Some (JStr ''tok'')"
    "truthy (JStr ''tok'')"
    "store cached_world ''tokenExpiry'' = Some (JNum 9000)"
    "int (now_check (env_at 5 (Inl (AxiosError None True)))) < 9000"
    by (simp_all add: cached_world_def env_at_def)
  show ?thesis
    using h cached_token_returned_untouched [OF h] by (simp add: cached_world_def)
qed

section \<open>A successful token exchange\<close>






section \<open>A failed token exchange\<close>

text \<open>
  Claim C10.  Whenever \<^verbatim>\<open>getAccessToken\<close> fails, the credential store afterwards
  equals the store before, so \<^verbatim>\<open>accessToken\<close> and \<^verbatim>\<open>tokenExpiry\<close> keep their
  values; and it does fail whenever the exchange is attempted and axios rejects it,
  with an error response or with none, and also when the answer holds no
  \<^verbatim>\<open>access_token\<close>, which the store refuses to write.
\<close>

theorem failed_token_exchange_writes_nothing:
  "(isl (fst (getAccessToken e w)) \<longrightarrow> store (snd (getAccessToken e w)) = store w)
   \<and> (\<not> cache_valid e w
        \<and> js_or (getConfig w ''baseUrl'') (JStr DEFAULT_BASE_URL) = JStr b
        \<and> isl (remote e (token_request w (replace_first ''/api/rest/v1'' [] b)))
      \<longrightarrow> isl (fst (getAccessToken e w)))
   \<and> (\<not> cache_valid e w
        \<and> js_or (getConfig w ''baseUrl'') (JStr DEFAULT_BASE_URL) = JStr b
        \<and> remote e (token_request w (replace_first ''/api/rest/v1'' [] b)) = Inr r
        \<and> (nullish (data r) \<or> prop_of (data r) ''access_token'' = JUndefined)
      \<longrightarrow> isl (fst (getAccessToken e w)))"
proof (intro conjI impI)
  assume "isl (fst (getAccessToken e w))"
  then show "store (snd (getAccessToken e w)) = store w"
    by (rule getAccessToken_fail_store)
next
  assume a: "\<not> cache_valid e w
        \<and> js_or (getConfig w ''baseUrl'') (JStr DEFAULT_BASE_URL) = JStr b
        \<and> isl (remote e (token_request w (replace_first ''/api/rest/v1'' [] b)))"
  then show "isl (fst (getAccessToken e w))"
    by (auto simp: getAccessToken_miss Let_def isl_def)
next
  assume a: "\<not> cache_valid e w
        \<and> js_or (getConfig w ''baseUrl'') (JStr DEFAULT_BASE_URL) = JStr b
        \<and> remote e (token_request w (replace_first ''/api/rest/v1'' [] b)) = Inr r
        \<and> (nullish (data r) \<or> prop_of (data r) ''access_token'' = JUndefined)"
  then show "isl (fst (getAccessToken e w))"
    by (auto simp: getAccessToken_miss Let_def store_token_cases)
qed

theorem failed_token_exchange_writes_nothing_witness:
  "isl (fst (getAccessToken (env_at 9500 (Inl (AxiosError None True))) cached_world))
   \<and> store (snd (getAccessToken (env_at 9500 (Inl (AxiosError None True))) cached_world))
       = store cached_world
   \<and> store cached_world ''accessToken'' = Some (JStr ''tok'')
   \<and> sent (snd (getAccessToken (env_at 9500 (Inl (AxiosError None True))) cached_world)) \<noteq> []
   \<and> isl (fst (getAccessToken (env_at 9500 (Inr (Response 200 (JObj [])))) cached_world))
   \<and> store (snd (getAccessToken (env_at 9500 (Inr (Response 200 (JObj [])))) cached_world))
       = store cached_world"
proof -
  let ?e = "env_at 9500 (Inl (AxiosError None True))"
  let ?e' = "env_at 9500 (Inr (Response 200 (JObj [])))"
  have nv: "\<not> cache_valid ?e cached_world" "\<not> cache_valid ?e' cached_world"
    by (simp_all add: cache_valid_def cached_world_def getConfig_def num_less_def env_at_def)
  have b: "js_or (getConfig cached_world ''baseUrl'') (JStr DEFAULT_BASE_URL) = JStr DEFAULT_BASE_URL"
    by (simp add: js_or_def cached_world_def getConfig_def)
  have r: "isl (remote ?e (token_request cached_world (replace_first ''/api/rest/v1'' [] DEFAULT_BASE_URL)))"
    by (simp add: env_at_def answering_def)
  have r': "remote ?e' (token_request cached_world (replace_first ''/api/rest/v1'' [] DEFAULT_BASE_URL))
              = Inr (Response 200 (JObj []))"
    by (simp add: env_at_def answering_def)
  have u: "nullish (data (Response 200 (JObj [])))
             \<or> prop_of (data (Response 200 (JObj []))) ''access_token'' = JUndefined"
    by simp
  have f: "isl (fst (getAccessToken ?e cached_world))"
    using failed_token_exchange_writes_nothing [of ?e cached_world DEFAULT_BASE_URL] nv b r by blast
  have s: "store (snd (getAccessToken ?e cached_world)) = store cached_world"
    using failed_token_exchange_writes_nothing [of ?e cached_world DEFAULT_BASE_URL] f by blast
  have f': "isl (fst (getAccessToken ?e' cached_world))"
    using failed_token_exchange_writes_nothing
      [of ?e' cached_world DEFAULT_BASE_URL "Response 200 (JObj [])"] nv b r' u by blast
  have s': "store (snd (getAccessToken ?e' cached_world)) = store cached_world"
    using failed_token_exchange_writes_nothing [of ?e' cached_world DEFAULT_BASE_URL] f' by blast
  have n: "sent (snd (getAccessToken ?e cached_world)) \<noteq> []"
    using nv b by (simp add: getAccessToken_miss Let_def env_at_def answering_def)
  show ?thesis using f s f' s' n by (simp add: cached_world_def)
qed

section \<open>The errors of a failed token exchange\<close>




lemma sent_store_token: "sent (snd (store_token e a r w)) = sent w"
  by (simp add: store_token_def setConfig_def Let_def)

lemma getAccessToken_miss_sent:
  assumes "\<not> cache_valid e w"
    and "js_or (getConfig w ''baseUrl'') (JStr DEFAULT_BASE_URL) = JStr b"
  shows "sent (snd (getAccessToken e w))
           = sent w @ [token_request w (replace_first ''/api/rest/v1'' [] b)]"
  using assms
  by (simp add: getAccessToken_miss Let_def sent_store_token split: sum.splits)

lemma starts_with_self [simp]: "starts_with p p"
  by (induction p) auto



section \<open>The authentication endpoint\<close>

lemma starts_with_take: "starts_with p s \<longleftrightarrow> take (length p) s = p"
  by (induction p s rule: starts_with.induct) auto

lemma starts_with_length: "starts_with p s \<Longrightarrow> length p \<le> length s"
  by (induction p s rule: starts_with.induct) auto

lemma spec_strip_suffix_Cons:
  assumes "\<not> starts_with pat (c # cs)" and "pat \<noteq> []"
  shows "spec_strip_suffix pat (c # cs) = c # spec_strip_suffix pat cs"
proof -
  consider "length pat \<le> length cs" | "length pat = Suc (length cs)" | "Suc (length cs) < length pat"
    by linarith
  then show ?thesis
  proof cases
    case 1
    then have "drop (length (c # cs) - length pat) (c # cs) = drop (length cs - length pat) cs"
      by (simp add: Suc_diff_le)
    moreover have "take (length (c # cs) - length pat) (c # cs) = c # take (length cs - length pat) cs"
      using 1 by (simp add: Suc_diff_le)
    ultimately show ?thesis using 1 by (simp add: spec_strip_suffix_def)
  next
    case 2
    then have "c # cs \<noteq> pat" using assms(1) by (auto simp: starts_with_take)
    then show ?thesis using 2 by (simp add: spec_strip_suffix_def)
  next
    case 3
    then show ?thesis by (simp add: spec_strip_suffix_def)
  qed
qed

lemma replace_first_strips_suffix:
  assumes "pat \<noteq> []"
    and "\<forall>k. k + length pat < length s \<longrightarrow> \<not> starts_with pat (drop k s)"
  shows "replace_first pat [] s = spec_strip_suffix pat s"
  using assms(2)
proof (induction s)
  case Nil
  then show ?case using assms(1) by (simp add: spec_strip_suffix_def)
next
  case (Cons c cs)
  show ?case
  proof (cases "starts_with pat (c # cs)")
    case True
    have "\<not> (0 + length pat < length (c # cs))"
      using Cons.prems True by (metis drop0)
    then have "length pat = length (c # cs)"
      using starts_with_length [OF True] by simp
    then have "pat = c # cs" using True by (simp add: starts_with_take)
    then show ?thesis by (simp add: spec_strip_suffix_def)
  next
    case False
    have "\<forall>k. k + length pat < length cs \<longrightarrow> \<not> starts_with pat (drop k cs)"
    proof (intro allI impI)
      fix k assume "k + length pat < length cs"
      then have "Suc k + length pat < length (c # cs)" by simp
      then have "\<not> starts_with pat (drop (Suc k) (c # cs))" using Cons.prems by blast
      then show "\<not> starts_with pat (drop k cs)" by simp
    qed
    then have "replace_first pat [] cs = spec_strip_suffix pat cs" by (rule Cons.IH)
    then show ?thesis
      using False spec_strip_suffix_Cons [OF False assms(1)] by simp
  qed
qed

text \<open>
  Claim C8, as the code has it.  When the exchange is attempted, exactly one request
  is sent: a POST to the base URL with the first occurrence of \<^verbatim>\<open>/api/rest/v1\<close>
  removed, followed by \<^verbatim>\<open>/api/oauth/v1/token\<close>, with a JSON body of
  \<^verbatim>\<open>grant_type\<close> \<^verbatim>\<open>password\<close>, \<^verbatim>\<open>client_id\<close>, \<^verbatim>\<open>client_secret\<close>, \<^verbatim>\<open>username\<close> and
  \<^verbatim>\<open>password\<close> from the store.  Removing the first occurrence is stripping the
  suffix whenever the API path occurs nowhere before the end of the base URL.
\<close>

theorem token_request_target:
  assumes "\<not> cache_valid e w"
    and "js_or (getConfig w ''baseUrl'') (JStr DEFAULT_BASE_URL) = JStr b"
  shows "sent (snd (getAccessToken e w))
           = sent w @
             [\<lparr>verb = ''POST'',
               baseURL = JUndefined,
               url = replace_first ''/api/rest/v1'' [] b @ ''/api/oauth/v1/token'',
               headers = [(''Content-Type'', ''application/json'')],
               params = [],
               body = JObj [(''grant_type'', JStr ''password''),
                            (''client_id'', getConfig w ''clientId''),
                            (''client_secret'', getConfig w ''clientSecret''),
                            (''username'', getConfig w ''username''),
                            (''password'', getConfig w ''password'')]\<rparr>]
     \<and> ((\<forall>k. k + length ''/api/rest/v1'' < length b \<longrightarrow> \<not> starts_with ''/api/rest/v1'' (drop k b))
          \<longrightarrow> replace_first ''/api/rest/v1'' [] b = spec_strip_suffix ''/api/rest/v1'' b)"
proof (intro conjI impI)
  show "sent (snd (getAccessToken e w))
           = sent w @
             [\<lparr>verb = ''POST'',
               baseURL = JUndefined,
               url = replace_first ''/api/rest/v1'' [] b @ ''/api/oauth/v1/token'',
               headers = [(''Content-Type'', ''application/json'')],
               params = [],
               body = JObj [(''grant_type'', JStr ''password''),
                            (''client_id'', getConfig w ''clientId''),
                            (''client_secret'', getConfig w ''clientSecret''),
                            (''username'', getConfig w ''username''),
                            (''password'', getConfig w ''password'')]\<rparr>]"
    using getAccessToken_miss_sent [OF assms] by (simp add: token_request_def)
next
  assume "\<forall>k. k + length ''/api/rest/v1'' < length b \<longrightarrow> \<not> starts_with ''/api/rest/v1'' (drop k b)"
  then show "replace_first ''/api/rest/v1'' [] b = spec_strip_suffix ''/api/rest/v1'' b"
    by (intro replace_first_strips_suffix) simp_all
qed

theorem token_request_target_witness:
  "\<not> cache_valid (env_at 0 (Inl (AxiosError None True))) empty_world
   \<and> js_or (getConfig empty_world ''baseUrl'') (JStr DEFAULT_BASE_URL) = JStr DEFAULT_BASE_URL
   \<and> map url (sent (snd (getAccessToken (env_at 0 (Inl (AxiosError None True))) empty_world)))
       = [''https://demo.akeneo.com/api/oauth/v1/token'']"
proof -
  let ?e = "env_at 0 (Inl (AxiosError None True))"
  have h1: "\<not> cache_valid ?e empty_world"
    by (simp add: cache_valid_def empty_world_def getConfig_def)
  have h2: "js_or (getConfig empty_world ''baseUrl'') (JStr DEFAULT_BASE_URL) = JStr DEFAULT_BASE_URL"
    by (simp add: js_or_def empty_world_def getConfig_def)
  have "replace_first ''/api/rest/v1'' [] DEFAULT_BASE_URL = ''https://demo.akeneo.com''"
    by (simp add: DEFAULT_BASE_URL_def)
  then show ?thesis
    using h1 h2 token_request_target [OF h1 h2] by (simp add: empty_world_def)
qed

text \<open>
  With a base URL that holds the API path twice, the occurrence removed is the first
  and not the suffix: the request does not go to the suffix-stripped URL.
\<close>

theorem auth_url_not_suffix_stripped:
  "map url (sent (snd (getAccessToken (env_at 0 (Inl (AxiosError None True))) twice_world)))
     = [''https://h/x/api/rest/v1/api/oauth/v1/token'']
   \<and> spec_strip_suffix ''/api/rest/v1'' ''https://h/api/rest/v1/x/api/rest/v1'' @ ''/api/oauth/v1/token''
       = ''https://h/api/rest/v1/x/api/oauth/v1/token''
   \<and> map url (sent (snd (getAccessToken (env_at 0 (Inl (AxiosError None True))) twice_world)))
       \<noteq> [spec_strip_suffix ''/api/rest/v1'' ''https://h/api/rest/v1/x/api/rest/v1''
            @ ''/api/oauth/v1/token'']"
  by (simp add: getAccessToken_def cache_valid_def getConfig_def twice_world_def js_or_def
      send_def token_request_def token_failure_def env_at_def answering_def spec_strip_suffix_def
      Let_def)

section \<open>Facts about the operations\<close>

lemmas op_defs =
  listProducts_def getProduct_def createProduct_def
  listCategories_def getCategory_def createCategory_def
  listAttributes_def getAttribute_def createAttribute_def


lemma run_rejected:
  assumes "getClient e w = (Inr c, w1)"
    and "remote e (resource_request c op) = Inl x"
  shows "run e op w =
     (Inl (handleApiError (w1\<lparr>sent := sent w1 @ [resource_request c op]\<rparr>) (Axios x)),
      w1\<lparr>sent := sent w1 @ [resource_request c op]\<rparr>)"
  using assms by (cases op) (simp_all add: op_defs send_def Let_def)

lemma run_sent:
  assumes "getClient e w = (Inr c, w1)"
  shows "snd (run e op w) = w1\<lparr>sent := sent w1 @ [resource_request c op]\<rparr>"
  using assms
  by (cases op) (simp_all add: op_defs send_def Let_def split: sum.splits)

lemma handleApiError_response:
  "handleApiError w (Axios (AxiosError (Some (Response st d)) rq)) =
     (if st = 401 then
        Error ''Authentication failed. Run: akeneo config set --client-id ... --client-secret ... --username ... --password ...''
      else if st = 403 then Error ''Access forbidden. Check your Akeneo user permissions.''
      else if st = 404 then Error ''Resource not found in Akeneo.''
      else if st = 422 then
        Error (''Validation error: '' @
               to_string (JSON_stringify (js_or (opt_prop d ''errors'') d)))
      else if st = 429 then Error ''Rate limit exceeded. Please wait before retrying.''
      else Error (''API Error ('' @ show_int st @ ''): '' @
                  to_string (js_or (opt_prop d ''message'') (JSON_stringify d))))"
  by (simp add: handleApiError_def)

lemma spec_kind_response:
  "spec_kind (handleApiError w (Axios (AxiosError (Some (Response st d)) rq)))
     = Some (spec_status_kind st)"
  by (simp add: handleApiError_response spec_kind_def spec_status_kind_def)




lemma remote_env_at [simp]: "remote (env_at t a) req = a"
  by (simp add: env_at_def answering_def)

lemma getClient_cached:
  "getClient (env_at 5 a) cached_world =
     (Inr \<lparr>client_baseURL = JStr DEFAULT_BASE_URL,
           client_headers = [(''Authorization'', ''Bearer tok''),
                             (''Content-Type'', ''application/json''),
                             (''Accept'', ''application/json'')]\<rparr>, cached_world)"
  by (simp add: getClient_def getAccessToken_def cache_valid_def getConfig_def cached_world_def
      env_at_def num_less_def js_or_def)

section \<open>The mapping from HTTP status to error\<close>

text \<open>
  Claim C1.  For each of the nine operations: when the client has been obtained and
  the server answers the operation's request with an error response of status \<open>st\<close>
  and body \<open>d\<close>, the operation raises one \<^verbatim>\<open>Error\<close> whose message depends on
  \<open>st\<close> and \<open>d\<close> only, not on the operation: the fixed messages of 401
  (\<open>AuthError\<close>), 403 (\<open>PermissionError\<close>), 404 (\<open>NotFoundError\<close>) and 429
  (\<open>RateLimitError\<close>), for 422 (\<open>ValidationError\<close>) the serialised \<^verbatim>\<open>errors\<close> field
  or body, and for every other status (\<open>ApiError\<close>) the status code followed by the
  body's \<^verbatim>\<open>message\<close> field or the serialised body.  The world afterwards holds exactly
  one more request than after the client was obtained: nothing is retried.
\<close>

theorem http_error_mapping:
  assumes "getClient e w = (Inr c, w1)"
    and "remote e (resource_request c op) = Inl (AxiosError (Some (Response st d)) rq)"
  shows "\<exists>m. run e op w = (Inl (Error m), w1\<lparr>sent := sent w1 @ [resource_request c op]\<rparr>)
     \<and> spec_kind (Error m) = Some (spec_status_kind st)
     \<and> (st = 401 \<longrightarrow> m = ''Authentication failed. Run: akeneo config set --client-id ... --client-secret ... --username ... --password ...'')
     \<and> (st = 403 \<longrightarrow> m = ''Access forbidden. Check your Akeneo user permissions.'')
     \<and> (st = 404 \<longrightarrow> m = ''Resource not found in Akeneo.'')
     \<and> (st = 422 \<longrightarrow> m = ''Validation error: '' @
                              to_string (JSON_stringify (js_or (opt_prop d ''errors'') d)))
     \<and> (st = 429 \<longrightarrow> m = ''Rate limit exceeded. Please wait before retrying.'')
     \<and> (st \<notin> {401, 403, 404, 422, 429} \<longrightarrow>
           m = ''API Error ('' @ show_int st @ ''): '' @
               to_string (js_or (opt_prop d ''message'') (JSON_stringify d)))"
proof -
  let ?w2 = "w1\<lparr>sent := sent w1 @ [resource_request c op]\<rparr>"
  let ?err = "handleApiError ?w2 (Axios (AxiosError (Some (Response st d)) rq))"
  have r: "run e op w = (Inl ?err, ?w2)"
    using run_rejected [OF assms] .
  have k: "spec_kind ?err = Some (spec_status_kind st)"
    by (rule spec_kind_response)
  obtain m where m: "?err = Error m"
    by (cases ?err) (auto simp: handleApiError_response split: if_splits)
  have "m = ''Authentication failed. Run: akeneo config set --client-id ... --client-secret ... --username ... --password ...''"
    if "st = 401"
    using m that by (simp add: handleApiError_response)
  moreover have "m = ''Access forbidden. Check your Akeneo user permissions.''" if "st = 403"
    using m that by (simp add: handleApiError_response)
  moreover have "m = ''Resource not found in Akeneo.''" if "st = 404"
    using m that by (simp add: handleApiError_response)
  moreover have "m = ''Validation error: '' @
                     to_string (JSON_stringify (js_or (opt_prop d ''errors'') d))" if "st = 422"
    using m that by (simp add: handleApiError_response)
  moreover have "m = ''Rate limit exceeded. Please wait before retrying.''" if "st = 429"
    using m that by (simp add: handleApiError_response)
  moreover have "m = ''API Error ('' @ show_int st @ ''): '' @
               to_string (js_or (opt_prop d ''message'') (JSON_stringify d))"
    if "st \<notin> {401, 403, 404, 422, 429}"
    using m that by (simp add: handleApiError_response)
  ultimately show ?thesis
    using r k m by (intro exI [of _ m]) simp
qed

theorem http_error_mapping_witness:
  "fst (run (env_at 5 (Inl (AxiosError (Some (Response 404 JNull)) True)))
            (GetProduct (JStr ''missing-sku'')) cached_world)
     = Inl (Error ''Resource not found in Akeneo.'')
   \<and> length (sent (snd (run (env_at 5 (Inl (AxiosError (Some (Response 404 JNull)) True)))
                             (GetProduct (JStr ''missing-sku'')) cached_world))) = 1"
proof -
  let ?a = "Inl (AxiosError (Some (Response 404 JNull)) True)"
  let ?c = "\<lparr>client_baseURL = JStr DEFAULT_BASE_URL,
           client_headers = [(''Authorization'', ''Bearer tok''),
                             (''Content-Type'', ''application/json''),
                             (''Accept'', ''application/json'')]\<rparr>"
  have h1: "getClient (env_at 5 ?a) cached_world = (Inr ?c, cached_world)"
    by (rule getClient_cached)
  have h2: "remote (env_at 5 ?a) (resource_request ?c (GetProduct (JStr ''missing-sku'')))
              = Inl (AxiosError (Some (Response 404 JNull)) True)"
    by (simp add: env_at_def answering_def)
  show ?thesis
    using http_error_mapping [OF h1 h2] by (auto simp: cached_world_def)
qed

section \<open>The type filter of listAttributes\<close>

lemma json_quote_plain:
  "\<forall>c \<in> set t. json_escape c = [c] \<Longrightarrow> json_quote t = CHR 0x22 # t @ [CHR 0x22]"
proof -
  assume a: "\<forall>c \<in> set t. json_escape c = [c]"
  then have "concat (map json_escape t) = t"
    by (induction t) auto
  then show ?thesis by (simp add: json_quote_def)
qed

lemma json_quote_keys:
  "json_quote ''type'' = ''\"type\"''"
  "json_quote ''operator'' = ''\"operator\"''"
  "json_quote ''value'' = ''\"value\"''"
  "json_quote ''='' = ''\"=\"''"
  by (simp_all add: json_quote_def json_escape_def)

text \<open>
  Claim C5.  With a non-empty string \<open>t\<close> as type filter, the request that
  \<^verbatim>\<open>listAttributes\<close> sends has the query parameter \<^verbatim>\<open>search\<close> equal to the JSON text
  \<^verbatim>\<open>{"type":[{"operator":"=","value":T}]}\<close>, \<open>T\<close> being \<open>t\<close> as a JSON string:
  \<open>t\<close> between double quotes when it holds no character that JSON escapes.  With no
  type filter the request has the parameters \<^verbatim>\<open>limit\<close> and \<^verbatim>\<open>page\<close> only.
\<close>

theorem attribute_type_filter:
  assumes "getClient e w = (Inr c, w1)"
  shows "(t \<noteq> [] \<longrightarrow>
            sent (snd (listAttributes e limit page (JStr t) w))
              = sent w1 @
                [client_get c ''/attributes''
                   [(''limit'', default_to (JNum 20) limit),
                    (''page'', default_to (JNum 1) page),
                    (''search'',
                     JStr (''{\"type\":[{\"operator\":\"=\",\"value\":'' @ json_quote t @ ''}]}''))]])
     \<and> (t \<noteq> [] \<and> (\<forall>ch \<in> set t. json_escape ch = [ch]) \<longrightarrow>
            map_of (params (last (sent (snd (listAttributes e limit page (JStr t) w))))) ''search''
              = Some (JStr (''{\"type\":[{\"operator\":\"=\",\"value\":\"'' @ t @ ''\"}]}'')))
     \<and> sent (snd (listAttributes e limit page JUndefined w))
           = sent w1 @
             [client_get c ''/attributes''
                [(''limit'', default_to (JNum 20) limit),
                 (''page'', default_to (JNum 1) page)]]"
proof -
  have s: "sent (snd (listAttributes e limit page ty w))
             = sent w1 @ [resource_request c (ListAttributes limit page ty)]" for ty
    using run_sent [OF assms, of "ListAttributes limit page ty"] by simp
  have q: "resource_request c (ListAttributes limit page (JStr t))
             = client_get c ''/attributes''
                   [(''limit'', default_to (JNum 20) limit),
                    (''page'', default_to (JNum 1) page),
                    (''search'',
                     JStr (''{\"type\":[{\"operator\":\"=\",\"value\":'' @ json_quote t @ ''}]}''))]"
    if "t \<noteq> []"
    using that by (simp add: JSON_stringify_def json_quote_keys)
  have p: "map_of (params (last (sent (snd (listAttributes e limit page (JStr t) w))))) ''search''
              = Some (JStr (''{\"type\":[{\"operator\":\"=\",\"value\":\"'' @ t @ ''\"}]}''))"
    if "t \<noteq> []" and "\<forall>ch \<in> set t. json_escape ch = [ch]"
    using that s [of "JStr t"] q json_quote_plain [of t]
    by (simp add: client_get_def default_to_def)
  have u: "resource_request c (ListAttributes limit page JUndefined)
             = client_get c ''/attributes''
                [(''limit'', default_to (JNum 20) limit),
                 (''page'', default_to (JNum 1) page)]"
    by simp
  show ?thesis using s q p u by simp
qed

theorem attribute_type_filter_witness:
  "map_of (params (last (sent (snd (listAttributes (env_at 5 (Inr (Response 200 (JArr []))))
             JUndefined JUndefined (JStr ''pim_catalog_text'') cached_world))))) ''search''
     = Some (JStr ''{\"type\":[{\"operator\":\"=\",\"value\":\"pim_catalog_text\"}]}'')
   \<and> map_of (params (last (sent (snd (listAttributes (env_at 5 (Inr (Response 200 (JArr []))))
             JUndefined JUndefined JUndefined cached_world))))) ''search''
     = None"
proof -
  let ?e = "env_at 5 (Inr (Response 200 (JArr [])))"
  have e: "\<forall>ch \<in> set ''pim_catalog_text''. json_escape ch = [ch]"
    by (simp add: json_escape_def)
  have n: "''pim_catalog_text'' \<noteq> []" by simp
  note t = attribute_type_filter [OF getClient_cached, of "''pim_catalog_text''"
             "Inr (Response 200 (JArr []))" JUndefined JUndefined]
  have a: "map_of (params (last (sent (snd (listAttributes ?e
             JUndefined JUndefined (JStr ''pim_catalog_text'') cached_world))))) ''search''
     = Some (JStr ''{\"type\":[{\"operator\":\"=\",\"value\":\"pim_catalog_text\"}]}'')"
    using t [THEN conjunct2, THEN conjunct1] e n by simp
  have b: "map_of (params (last (sent (snd (listAttributes ?e
             JUndefined JUndefined JUndefined cached_world))))) ''search'' = None"
    using t [THEN conjunct2, THEN conjunct2] by (simp add: client_get_def)
  show ?thesis using a b by simp
qed

section \<open>What a create call returns\<close>

lemma run_created:
  assumes "getClient e w = (Inr c, w1)"
  shows "remote e (resource_request c (CreateProduct i f cs v)) = Inr r \<Longrightarrow>
           createProduct e i f cs v w =
             (Inr (JObj [(''identifier'', i), (''family'', f), (''categories'', cs)]),
              w1\<lparr>sent := sent w1 @ [resource_request c (CreateProduct i f cs v)]\<rparr>)"
    and "remote e (resource_request c (CreateCategory cd p ls)) = Inr r \<Longrightarrow>
           createCategory e cd p ls w =
             (Inr (JObj [(''code'', cd), (''parent'', p), (''labels'', ls)]),
              w1\<lparr>sent := sent w1 @ [resource_request c (CreateCategory cd p ls)]\<rparr>)"
    and "remote e (resource_request c (CreateAttribute cd ty g ls sc lo)) = Inr r \<Longrightarrow>
           createAttribute e cd ty g ls sc lo w =
             (Inr (JObj [(''code'', cd), (''type'', ty),
                         (''group'', if truthy g then g else JStr ''other'')]),
              w1\<lparr>sent := sent w1 @ [resource_request c (CreateAttribute cd ty g ls sc lo)]\<rparr>)"
  using assms
  by (simp_all add: createProduct_def createCategory_def createAttribute_def send_def Let_def
      js_or_def)

text \<open>
  Claim C9, as the code has it.  When the client has been obtained and the server
  accepts the request, \<^verbatim>\<open>createProduct\<close> returns the caller's \<^verbatim>\<open>identifier\<close>,
  \<^verbatim>\<open>family\<close> and \<^verbatim>\<open>categories\<close>, \<^verbatim>\<open>createCategory\<close> the caller's \<^verbatim>\<open>code\<close>,
  \<^verbatim>\<open>parent\<close> and \<^verbatim>\<open>labels\<close>, and \<^verbatim>\<open>createAttribute\<close> the caller's \<^verbatim>\<open>code\<close> and
  \<^verbatim>\<open>type\<close> and, as \<^verbatim>\<open>group\<close>, the caller's group when it is truthy and the default
  \<^verbatim>\<open>other\<close> otherwise.  The only request sent after the client was obtained is the
  POST: nothing is fetched again.
\<close>

theorem create_returns_echo:
  assumes "getClient e w = (Inr c, w1)"
  shows "(remote e (resource_request c (CreateProduct i f cs v)) = Inr r \<longrightarrow>
           createProduct e i f cs v w =
             (Inr (JObj [(''identifier'', i), (''family'', f), (''categories'', cs)]),
              w1\<lparr>sent := sent w1 @ [resource_request c (CreateProduct i f cs v)]\<rparr>))
     \<and> (remote e (resource_request c (CreateCategory cd p ls)) = Inr r \<longrightarrow>
           createCategory e cd p ls w =
             (Inr (JObj [(''code'', cd), (''parent'', p), (''labels'', ls)]),
              w1\<lparr>sent := sent w1 @ [resource_request c (CreateCategory cd p ls)]\<rparr>))
     \<and> (remote e (resource_request c (CreateAttribute cd ty g ls sc lo)) = Inr r \<longrightarrow>
           createAttribute e cd ty g ls sc lo w =
             (Inr (JObj [(''code'', cd), (''type'', ty),
                         (''group'', if truthy g then g else JStr ''other'')]),
              w1\<lparr>sent := sent w1 @ [resource_request c (CreateAttribute cd ty g ls sc lo)]\<rparr>))
     \<and> verb (resource_request c (CreateProduct i f cs v)) = ''POST''
     \<and> verb (resource_request c (CreateCategory cd p ls)) = ''POST''
     \<and> verb (resource_request c (CreateAttribute cd ty g ls sc lo)) = ''POST''"
  using run_created [OF assms] by (simp add: client_post_def)

theorem create_returns_echo_witness:
  "createAttribute (env_at 5 (Inr (Response 201 JNull)))
       (JStr ''color'') (JStr ''pim_catalog_text'') (JStr ''marketing'') JUndefined JUndefined JUndefined
       cached_world
     = (Inr (JObj [(''code'', JStr ''color''), (''type'', JStr ''pim_catalog_text''),
                   (''group'', JStr ''marketing'')]),
        cached_world\<lparr>sent :=
          [\<lparr>verb = ''POST'', baseURL = JStr DEFAULT_BASE_URL, url = ''/attributes'',
            headers = [(''Authorization'', ''Bearer tok''),
                       (''Content-Type'', ''application/json''),
                       (''Accept'', ''application/json'')],
            params = [],
            body = JObj [(''code'', JStr ''color''), (''type'', JStr ''pim_catalog_text''),
                         (''group'', JStr ''marketing''), (''scopable'', JBool False),
                         (''localizable'', JBool False)]\<rparr>]\<rparr>)"
proof -
  let ?a = "Inr (Response 201 JNull) :: axios_error + response"
  let ?c = "\<lparr>client_baseURL = JStr DEFAULT_BASE_URL,
           client_headers = [(''Authorization'', ''Bearer tok''),
                             (''Content-Type'', ''application/json''),
                             (''Accept'', ''application/json'')]\<rparr>"
  have h: "remote (env_at 5 ?a) req = Inr (Response 201 JNull)" for req
    by simp
  note t = create_returns_echo [OF getClient_cached [of ?a],
      where r = "Response 201 JNull" and cd = "JStr ''color''" and ty = "JStr ''pim_catalog_text''"
        and g = "JStr ''marketing''" and ls = JUndefined and sc = JUndefined and lo = JUndefined]
  show ?thesis
    using t [THEN conjunct2, THEN conjunct2, THEN conjunct1] h
    by (simp add: client_post_def cached_world_def default_to_def spread_if_def js_or_def)
qed

text \<open>
  \<^verbatim>\<open>createAttribute\<close> called without a group returns the group \<^verbatim>\<open>other\<close>, which the
  caller did not submit.
\<close>

theorem create_attribute_echoes_default_group:
  "fst (createAttribute (env_at 5 (Inr (Response 201 JNull)))
          (JStr ''color'') (JStr ''pim_catalog_text'') JUndefined JUndefined JUndefined JUndefined
          cached_world)
     = Inr (JObj [(''code'', JStr ''color''), (''type'', JStr ''pim_catalog_text''),
                  (''group'', JStr ''other'')])
   \<and> fst (createAttribute (env_at 5 (Inr (Response 201 JNull)))
          (JStr ''color'') (JStr ''pim_catalog_text'') JUndefined JUndefined JUndefined JUndefined
          cached_world)
     \<noteq> Inr (JObj [(''code'', JStr ''color''), (''type'', JStr ''pim_catalog_text''),
                  (''group'', JUndefined)])"
  by (simp add: createAttribute_def getClient_cached send_def js_or_def Let_def)

section \<open>Normalising a list response\<close>

lemma parseAkeneoList_envelope:
  assumes "map_of kvs ''_embedded'' = Some (JObj emb)"
    and "map_of emb ''items'' = Some (JArr xs)"
  shows "parseAkeneoList (Response st (JObj kvs)) = Inr (JArr xs)"
  using assms by (simp add: parseAkeneoList_def js_and_def)

lemma parseAkeneoList_bare:
  "parseAkeneoList (Response st (JArr xs)) = Inr (JArr xs)"
  by (simp add: parseAkeneoList_def js_and_def)

lemma parseAkeneoList_other:
  assumes "\<not> nullish d" and "\<not> is_array d"
    and "\<not> truthy (prop_of (prop_of d ''_embedded'') ''items'')"
  shows "parseAkeneoList (Response st d) = Inr (JArr [])"
proof -
  have "\<not> truthy (js_and (prop_of d ''_embedded'') (prop_of (prop_of d ''_embedded'') ''items''))"
    using assms(3) by (cases "prop_of d ''_embedded''") (auto simp: js_and_def)
  then show ?thesis using assms(1,2) by (simp add: parseAkeneoList_def)
qed

text \<open>
  Claim C3.  The claim holds for an envelope whose items are a sequence, for a bare
  sequence and for every other body that is neither \<^verbatim>\<open>null\<close> nor an envelope with
  truthy items (the three lemmas above).  On the body \<^verbatim>\<open>null\<close> the function does
  not return the empty sequence: reading \<^verbatim>\<open>data._embedded\<close> throws a \<^verbatim>\<open>TypeError\<close>,
  which \<^verbatim>\<open>listProducts\<close> hands on as it is.  On an envelope whose items are not a
  sequence it returns those items.
\<close>

theorem parseAkeneoList_null_body:
  "parseAkeneoList (Response 200 JNull) = Inl TypeError
   \<and> fst (listProducts (env_at 5 (Inr (Response 200 JNull))) JUndefined JUndefined JUndefined
            cached_world) = Inl TypeError
   \<and> parseAkeneoList (Response 200 (JObj [(''_embedded'', JObj [(''items'', JStr ''none'')])]))
       = Inr (JStr ''none'')"
  by (simp add: parseAkeneoList_def listProducts_def getClient_cached send_def
      js_and_def handleApiError_def Let_def)

section \<open>What reaches the caller\<close>







end
